theory Spec2Isabelle
  imports Main "HOL-Library.Sublist"
begin

section \<open>Values carried by a request body\<close>

text \<open>
  A field of \<open>req.body\<close> is a JSON value or is missing. The program looks at a number
  only through its JavaScript string form (the validators stringify it, the schema casts
  it to \<open>String\<close>), so a number is carried as that text: \<open>JNum ''-1''\<close> is the JSON
  number \<open>-1\<close>. Arrays and objects are left out of the value space.
\<close>

datatype jsvalue = JUndefined | JNull | JBool bool | JNum string | JStr string

type_synonym reqbody = "string \<Rightarrow> jsvalue"

text \<open>The stringification the standard validators apply to a field before testing it.\<close>

fun toString :: "jsvalue \<Rightarrow> string" where
  "toString JUndefined = []"
| "toString JNull = []"
| "toString (JBool b) = (if b then ''true'' else ''false'')"
| "toString (JNum s) = s"
| "toString (JStr s) = s"

section \<open>The validators used by the rules\<close>

definition isDigit :: "char \<Rightarrow> bool" where
  "isDigit c = (c \<in> set ''0123456789'')"

fun strip_sign :: "string \<Rightarrow> string" where
  "strip_sign [] = []"
| "strip_sign (c # r) = (if c = CHR ''+'' \<or> c = CHR ''-'' then r else c # r)"

text \<open>\<open>isNumeric\<close> with no options: the text matches \<open>^[+-]?([0-9]*[.])?[0-9]+$\<close>.\<close>

definition isNumeric :: "string \<Rightarrow> bool" where
  "isNumeric s =
     (let r = strip_sign s; a = takeWhile isDigit r; b = dropWhile isDigit r
      in case b of
           [] \<Rightarrow> a \<noteq> []
         | c # d \<Rightarrow> c = CHR ''.'' \<and> d \<noteq> [] \<and> list_all isDigit d)"

fun digit_val :: "char \<Rightarrow> int" where
  "digit_val c = int (of_char c) - 48"

definition digits_val :: "string \<Rightarrow> int" where
  "digits_val ds = foldl (\<lambda>n c. 10 * n + digit_val c) 0 ds"

definition number_of :: "string \<Rightarrow> int" where
  "number_of s =
     (case s of
        [] \<Rightarrow> 0
      | c # r \<Rightarrow> if c = CHR ''-'' then - digits_val r
                else if c = CHR ''+'' then digits_val r
                else digits_val (c # r))"

text \<open>
  \<open>isInt\<close> with the option \<open>min\<close>: the text matches \<open>^[-+]?[0-9]+$\<close> (leading zeroes are
  allowed by default) and its numeric value is at least the bound.
\<close>

definition isInt :: "int option \<Rightarrow> string \<Rightarrow> bool" where
  "isInt lo s =
     (let r = strip_sign s
      in r \<noteq> [] \<and> list_all isDigit r \<and>
         (case lo of None \<Rightarrow> True | Some m \<Rightarrow> m \<le> number_of s))"

text \<open>
  What the program takes from its libraries without fixing it: the two long
  syntax checks of the validator library, the test the store's driver applies to the
  \<open>:id\<close> parameter, and the texts of the errors the object mapper raises by itself.
\<close>

record lib =
  isEmail :: "string \<Rightarrow> bool"
  isISO8601 :: "string \<Rightarrow> bool"
  isObjectId :: "string \<Rightarrow> bool"
  castErrorMessage :: "string \<Rightarrow> string"
  validationErrorMessage :: "string list \<Rightarrow> string"
  duplicateKeyMessage :: "string \<Rightarrow> string"
  documentNotFoundMessage :: "string \<Rightarrow> string"

datatype validator = IsString | NotEmpty | IsEmail | IsNumeric | IsInt "int option" | IsISO8601

text \<open>
  \<open>isString\<close> tests the raw value; every other validator tests the stringified value;
  \<open>notEmpty\<close> is the negation of \<open>isEmpty\<close>.
\<close>

fun passes :: "lib \<Rightarrow> validator \<Rightarrow> jsvalue \<Rightarrow> bool" where
  "passes L IsString v = (case v of JStr s \<Rightarrow> True | _ \<Rightarrow> False)"
| "passes L NotEmpty v = (toString v \<noteq> [])"
| "passes L IsEmail v = isEmail L (toString v)"
| "passes L IsNumeric v = isNumeric (toString v)"
| "passes L (IsInt lo) v = isInt lo (toString v)"
| "passes L IsISO8601 v = isISO8601 L (toString v)"

section \<open>Validation rules and their result\<close>

record violation =
  field :: string
  message :: string

text \<open>A chain: \<open>body(field)\<close> followed by validators, each with its \<open>withMessage\<close>.\<close>

type_synonym chain = "string \<times> (validator \<times> string) list"

text \<open>The rules of \<open>POST /employees\<close>.\<close>

definition post_rules :: "chain list" where
  "post_rules =
    [(''emp_name'', [(IsString, ''Employee name must be a string''),
                     (NotEmpty, ''Employee name is required'')]),
     (''emp_email'', [(IsEmail, ''Invalid email format''),
                      (NotEmpty, ''Employee email is required'')]),
     (''emp_salary'', [(IsNumeric, ''Salary must be a number''),
                       (NotEmpty, ''Employee salary is required'')]),
     (''experience'', [(IsInt (Some 0), ''Experience must be a non-negative integer'')]),
     (''dept_code'', [(IsString, ''Department code must be a string''),
                      (NotEmpty, ''Department code is required'')]),
     (''joining_date'', [(IsISO8601, ''Joining date must be a valid date in ISO8601 format'')]),
     (''secrete_code'', [(IsString, ''Secret code must be a string''),
                         (NotEmpty, ''Secret code is required'')])]"

text \<open>The rules of \<open>PUT /employees/:id\<close>, written out a second time in the source.\<close>

definition put_rules :: "chain list" where
  "put_rules =
    [(''emp_name'', [(IsString, ''Employee name must be a string''),
                     (NotEmpty, ''Employee name is required'')]),
     (''emp_email'', [(IsEmail, ''Invalid email format''),
                      (NotEmpty, ''Employee email is required'')]),
     (''emp_salary'', [(IsNumeric, ''Salary must be a number''),
                       (NotEmpty, ''Employee salary is required'')]),
     (''experience'', [(IsInt (Some 0), ''Experience must be a non-negative integer'')]),
     (''dept_code'', [(IsString, ''Department code must be a string''),
                      (NotEmpty, ''Department code is required'')]),
     (''joining_date'', [(IsISO8601, ''Joining date must be a valid date in ISO8601 format'')]),
     (''secrete_code'', [(IsString, ''Secret code must be a string''),
                         (NotEmpty, ''Secret code is required'')])]"

text \<open>
  A chain runs all of its validators on the field (there is no \<open>bail\<close>); each one that
  fails adds its own violation, in the order of the chain.
\<close>

fun run_chain :: "lib \<Rightarrow> reqbody \<Rightarrow> chain \<Rightarrow> violation list" where
  "run_chain L b (f, vs) =
     map (\<lambda>(v, m). \<lparr>field = f, message = m\<rparr>) (filter (\<lambda>(v, m). \<not> passes L v (b f)) vs)"

text \<open>\<open>validationResult(req).array()\<close>: the violations of the chains, in the order of the rules.\<close>

definition validationResult :: "lib \<Rightarrow> chain list \<Rightarrow> reqbody \<Rightarrow> violation list" where
  "validationResult L rules b = concat (map (run_chain L b) rules)"

section \<open>The Employee model and the store\<close>

text \<open>
  A document of the collection: the identifier the store keys it by and the seven paths
  of \<open>employeeSchema\<close>. The version key the object mapper adds is left out.
\<close>

record employee =
  doc_id :: string
  emp_name :: jsvalue
  emp_email :: jsvalue
  emp_salary :: jsvalue
  experience :: jsvalue
  dept_code :: jsvalue
  joining_date :: jsvalue
  secrete_code :: jsvalue

text \<open>
  Every path of \<open>employeeSchema\<close> has \<open>type: String\<close>: a value assigned to it is cast
  to a string; a missing value and \<open>null\<close> stay as they are.
\<close>

fun castString :: "jsvalue \<Rightarrow> jsvalue" where
  "castString JUndefined = JUndefined"
| "castString JNull = JNull"
| "castString (JBool b) = JStr (if b then ''true'' else ''false'')"
| "castString (JNum s) = JStr s"
| "castString (JStr s) = JStr s"

text \<open>Every path has \<open>required: true\<close>: for a string path, a non-empty string.\<close>

fun checkRequired :: "jsvalue \<Rightarrow> bool" where
  "checkRequired (JStr s) = (s \<noteq> [])"
| "checkRequired _ = False"

definition invalid_paths :: "employee \<Rightarrow> string list" where
  "invalid_paths e =
     map fst (filter (\<lambda>(p, v). \<not> checkRequired v)
       [(''emp_name'', emp_name e), (''emp_email'', emp_email e),
        (''emp_salary'', emp_salary e), (''experience'', experience e),
        (''dept_code'', dept_code e), (''joining_date'', joining_date e),
        (''secrete_code'', secrete_code e)])"

text \<open>
  \<open>new Employee({...})\<close> with the seven values read from \<open>req.body\<close>; the identifier of
  the new document is generated at construction and is an input here.
\<close>

definition Employee :: "string \<Rightarrow> reqbody \<Rightarrow> employee" where
  "Employee new_id b =
     \<lparr>doc_id = new_id,
      emp_name = castString (b ''emp_name''),
      emp_email = castString (b ''emp_email''),
      emp_salary = castString (b ''emp_salary''),
      experience = castString (b ''experience''),
      dept_code = castString (b ''dept_code''),
      joining_date = castString (b ''joining_date''),
      secrete_code = castString (b ''secrete_code'')\<rparr>"

text \<open>
  The store: the documents of the collection in their natural order, and the calls made
  on the model so far. A call either gets its answer from the store or fails with a text
  (store unreachable, write rejected), which is an input of each operation.
\<close>

datatype call = Find | FindRegex string | FindById string | Save string | DeleteOne string

record store =
  docs :: "employee list"
  calls :: "call list"

datatype fault = Throws string | Rejects string

datatype 'a outcome = Resolved 'a | Rejected string | Thrown string

fun failed :: "fault \<Rightarrow> 'a outcome" where
  "failed (Throws e) = Thrown e"
| "failed (Rejects e) = Rejected e"

definition called :: "call \<Rightarrow> store \<Rightarrow> store" where
  "called c s = s\<lparr>calls := calls s @ [c]\<rparr>"

fun replace_doc :: "employee \<Rightarrow> employee list \<Rightarrow> employee list" where
  "replace_doc e [] = []"
| "replace_doc e (d # ds) = (if doc_id d = doc_id e then e # ds else d # replace_doc e ds)"

fun remove_doc :: "string \<Rightarrow> employee list \<Rightarrow> employee list" where
  "remove_doc i [] = []"
| "remove_doc i (d # ds) = (if doc_id d = i then ds else d # remove_doc i ds)"

text \<open>\<open>Employee.find()\<close>.\<close>

definition find_all :: "fault option \<Rightarrow> store \<Rightarrow> employee list outcome \<times> store" where
  "find_all flt s =
     (case flt of
        Some f \<Rightarrow> (failed f, called Find s)
      | None \<Rightarrow> (Resolved (docs s), called Find s))"

text \<open>
  \<open>Employee.findById(id)\<close>: the identifier is cast first, and a text that is not an
  identifier of the store fails the cast before the store is asked.
\<close>

definition findById :: "lib \<Rightarrow> fault option \<Rightarrow> string \<Rightarrow> store \<Rightarrow> employee option outcome \<times> store" where
  "findById L flt i s =
     (if \<not> isObjectId L i then (Rejected (castErrorMessage L i), called (FindById i) s)
      else case flt of
             Some f \<Rightarrow> (failed f, called (FindById i) s)
           | None \<Rightarrow> (Resolved (find (\<lambda>d. doc_id d = i) (docs s)), called (FindById i) s))"

text \<open>
  \<open>employee.save()\<close>: the document is validated against the schema, then inserted when
  it is new (the store refuses a second document with the same identifier) or written
  over the stored one.
\<close>

definition save :: "lib \<Rightarrow> fault option \<Rightarrow> bool \<Rightarrow> employee \<Rightarrow> store \<Rightarrow> employee outcome \<times> store" where
  "save L flt isNew e s =
     (let s' = called (Save (doc_id e)) s in
      if invalid_paths e \<noteq> [] then (Rejected (validationErrorMessage L (invalid_paths e)), s')
      else case flt of
             Some f \<Rightarrow> (failed f, s')
           | None \<Rightarrow>
               if isNew then
                 (if doc_id e \<in> set (map doc_id (docs s))
                  then (Rejected (duplicateKeyMessage L (doc_id e)), s')
                  else (Resolved e, s'\<lparr>docs := docs s @ [e]\<rparr>))
               else
                 (if doc_id e \<notin> set (map doc_id (docs s))
                  then (Rejected (documentNotFoundMessage L (doc_id e)), s')
                  else (Resolved e, s'\<lparr>docs := replace_doc e (docs s)\<rparr>)))"

text \<open>\<open>employee.deleteOne()\<close>.\<close>

definition deleteOne :: "fault option \<Rightarrow> employee \<Rightarrow> store \<Rightarrow> unit outcome \<times> store" where
  "deleteOne flt e s =
     (let s' = called (DeleteOne (doc_id e)) s in
      case flt of
        Some f \<Rightarrow> (failed f, s')
      | None \<Rightarrow> (Resolved (), s'\<lparr>docs := remove_doc (doc_id e) (docs s)\<rparr>))"

section \<open>Case-insensitive regular expressions\<close>

text \<open>
  The search term is handed to the store as a regular expression with option \<open>i\<close>. The
  patterns modelled are those made of ordinary characters and the dot; a term holding any
  other metacharacter is outside the model (\<open>None\<close>). Letters are the ASCII letters.
\<close>

datatype atom = Lit char | AnyChar

definition metachars :: "char list" where
  "metachars = CHR 0x5C # ''^$.[]|()?*+{}''"

fun compile_regex :: "string \<Rightarrow> atom list option" where
  "compile_regex [] = Some []"
| "compile_regex (c # cs) =
     (if c = CHR ''.'' then map_option (Cons AnyChar) (compile_regex cs)
      else if c \<in> set metachars then None
      else map_option (Cons (Lit c)) (compile_regex cs))"

definition lower :: "char \<Rightarrow> char" where
  "lower c = (case map_of (zip ''ABCDEFGHIJKLMNOPQRSTUVWXYZ'' ''abcdefghijklmnopqrstuvwxyz'') c of
                Some l \<Rightarrow> l | None \<Rightarrow> c)"

fun atom_match :: "atom \<Rightarrow> char \<Rightarrow> bool" where
  "atom_match (Lit c) d = (lower c = lower d)"
| "atom_match AnyChar d = (d \<noteq> CHR 0x0A)"

fun match_here :: "atom list \<Rightarrow> string \<Rightarrow> bool" where
  "match_here [] s = True"
| "match_here (a # r) [] = False"
| "match_here (a # r) (c # cs) = (atom_match a c \<and> match_here r cs)"

text \<open>The pattern is not anchored: it may match at any position of the subject.\<close>

fun regex_test :: "atom list \<Rightarrow> string \<Rightarrow> bool" where
  "regex_test r [] = match_here r []"
| "regex_test r (c # cs) = (match_here r (c # cs) \<or> regex_test r cs)"

text \<open>\<open>Employee.find({ emp_name: { $regex: name, $options: 'i' } })\<close>.\<close>

definition find_regex :: "fault option \<Rightarrow> string \<Rightarrow> atom list \<Rightarrow> store \<Rightarrow> employee list outcome \<times> store" where
  "find_regex flt name r s =
     (case flt of
        Some f \<Rightarrow> (failed f, called (FindRegex name) s)
      | None \<Rightarrow>
          (Resolved (filter (\<lambda>d. case emp_name d of JStr n \<Rightarrow> regex_test r n | _ \<Rightarrow> False) (docs s)),
           called (FindRegex name) s))"

section \<open>Request handlers\<close>

datatype resbody =
    JsonErrors "violation list"
  | JsonDoc employee
  | JsonDocs "employee list"
  | JsonMessage string
  | JsonError string

record response =
  status :: nat
  body :: resbody

text \<open>\<open>POST /employees\<close>\<close>

definition post_employees :: "lib \<Rightarrow> fault option \<Rightarrow> string \<Rightarrow> reqbody \<Rightarrow> store \<Rightarrow> response \<times> store" where
  "post_employees L flt new_id b s =
     (let errors = validationResult L post_rules b in
      if errors \<noteq> [] then (\<lparr>status = 400, body = JsonErrors errors\<rparr>, s)
      else case save L flt True (Employee new_id b) s of
             (Resolved savedEmployee, s') \<Rightarrow> (\<lparr>status = 201, body = JsonDoc savedEmployee\<rparr>, s')
           | (Rejected err, s') \<Rightarrow> (\<lparr>status = 400, body = JsonMessage err\<rparr>, s')
           | (Thrown err, s') \<Rightarrow> (\<lparr>status = 400, body = JsonMessage err\<rparr>, s'))"

text \<open>\<open>GET /employees\<close>\<close>

definition get_employees :: "fault option \<Rightarrow> store \<Rightarrow> response \<times> store" where
  "get_employees flt s =
     (case find_all flt s of
        (Resolved employees, s') \<Rightarrow> (\<lparr>status = 200, body = JsonDocs employees\<rparr>, s')
      | (Rejected err, s') \<Rightarrow> (\<lparr>status = 500, body = JsonMessage err\<rparr>, s')
      | (Thrown err, s') \<Rightarrow> (\<lparr>status = 500, body = JsonMessage err\<rparr>, s'))"

text \<open>\<open>GET /employees/:id\<close>\<close>

definition get_employee :: "lib \<Rightarrow> fault option \<Rightarrow> string \<Rightarrow> store \<Rightarrow> response \<times> store" where
  "get_employee L flt i s =
     (case findById L flt i s of
        (Resolved None, s') \<Rightarrow> (\<lparr>status = 404, body = JsonMessage ''Employee not found''\<rparr>, s')
      | (Resolved (Some e), s') \<Rightarrow> (\<lparr>status = 200, body = JsonDoc e\<rparr>, s')
      | (Rejected err, s') \<Rightarrow> (\<lparr>status = 500, body = JsonMessage err\<rparr>, s')
      | (Thrown err, s') \<Rightarrow> (\<lparr>status = 500, body = JsonMessage err\<rparr>, s'))"

text \<open>\<open>PUT /employees/:id\<close>\<close>

definition put_employee ::
  "lib \<Rightarrow> fault option \<Rightarrow> fault option \<Rightarrow> string \<Rightarrow> reqbody \<Rightarrow> store \<Rightarrow> response \<times> store" where
  "put_employee L flt_find flt_save i b s =
     (let errors = validationResult L put_rules b in
      if errors \<noteq> [] then (\<lparr>status = 400, body = JsonErrors errors\<rparr>, s)
      else case findById L flt_find i s of
             (Resolved None, s') \<Rightarrow> (\<lparr>status = 404, body = JsonMessage ''Employee not found''\<rparr>, s')
           | (Resolved (Some e), s') \<Rightarrow>
               (case save L flt_save False
                       (e\<lparr>emp_name := castString (b ''emp_name''),
                          emp_email := castString (b ''emp_email''),
                          emp_salary := castString (b ''emp_salary''),
                          experience := castString (b ''experience''),
                          dept_code := castString (b ''dept_code''),
                          joining_date := castString (b ''joining_date''),
                          secrete_code := castString (b ''secrete_code'')\<rparr>) s' of
                  (Resolved updatedEmployee, s'') \<Rightarrow> (\<lparr>status = 200, body = JsonDoc updatedEmployee\<rparr>, s'')
                | (Rejected err, s'') \<Rightarrow> (\<lparr>status = 400, body = JsonMessage err\<rparr>, s'')
                | (Thrown err, s'') \<Rightarrow> (\<lparr>status = 400, body = JsonMessage err\<rparr>, s''))
           | (Rejected err, s') \<Rightarrow> (\<lparr>status = 400, body = JsonMessage err\<rparr>, s')
           | (Thrown err, s') \<Rightarrow> (\<lparr>status = 400, body = JsonMessage err\<rparr>, s'))"

text \<open>\<open>DELETE /employees/:id\<close>\<close>

definition delete_employee ::
  "lib \<Rightarrow> fault option \<Rightarrow> fault option \<Rightarrow> string \<Rightarrow> store \<Rightarrow> response \<times> store" where
  "delete_employee L flt_find flt_delete i s =
     (case findById L flt_find i s of
        (Resolved None, s') \<Rightarrow> (\<lparr>status = 404, body = JsonMessage ''Employee not found''\<rparr>, s')
      | (Resolved (Some e), s') \<Rightarrow>
          (case deleteOne flt_delete e s' of
             (Resolved u, s'') \<Rightarrow> (\<lparr>status = 200, body = JsonMessage ''Employee deleted''\<rparr>, s'')
           | (Rejected err, s'') \<Rightarrow> (\<lparr>status = 500, body = JsonMessage err\<rparr>, s'')
           | (Thrown err, s'') \<Rightarrow> (\<lparr>status = 500, body = JsonMessage err\<rparr>, s''))
      | (Rejected err, s') \<Rightarrow> (\<lparr>status = 500, body = JsonMessage err\<rparr>, s')
      | (Thrown err, s') \<Rightarrow> (\<lparr>status = 500, body = JsonMessage err\<rparr>, s'))"

text \<open>
  \<open>GET /employees/search/:name\<close>. The query is not awaited: a rejection is answered by
  the \<open>.catch\<close> of the promise, an exception thrown while the query is built by the
  \<open>catch\<close> of the \<open>try\<close>.
\<close>

definition search_employees :: "fault option \<Rightarrow> string \<Rightarrow> store \<Rightarrow> (response \<times> store) option" where
  "search_employees flt name s =
     (case compile_regex name of
        None \<Rightarrow> None
      | Some r \<Rightarrow>
          Some (case find_regex flt name r s of
                  (Resolved employees, s') \<Rightarrow>
                    if length employees = 0
                    then (\<lparr>status = 404, body = JsonMessage ''No employees found''\<rparr>, s')
                    else (\<lparr>status = 200, body = JsonDocs employees\<rparr>, s')
                | (Rejected err, s') \<Rightarrow> (\<lparr>status = 500, body = JsonError err\<rparr>, s')
                | (Thrown err, s') \<Rightarrow> (\<lparr>status = 500, body = JsonMessage err\<rparr>, s')))"

section \<open>Notions used to state the properties\<close>



text \<open>The specification's round trip: the record equals the submitted input in all seven fields.\<close>

definition same_fields :: "employee \<Rightarrow> reqbody \<Rightarrow> bool" where
  "same_fields e b =
     (emp_name e = b ''emp_name'' \<and> emp_email e = b ''emp_email'' \<and>
      emp_salary e = b ''emp_salary'' \<and> experience e = b ''experience'' \<and>
      dept_code e = b ''dept_code'' \<and> joining_date e = b ''joining_date'' \<and>
      secrete_code e = b ''secrete_code'')"

text \<open>The record a valid body is stored as: every field is the text of the submitted value.\<close>

definition stored_form :: "string \<Rightarrow> reqbody \<Rightarrow> employee" where
  "stored_form i b =
     \<lparr>doc_id = i,
      emp_name = JStr (toString (b ''emp_name'')),
      emp_email = JStr (toString (b ''emp_email'')),
      emp_salary = JStr (toString (b ''emp_salary'')),
      experience = JStr (toString (b ''experience'')),
      dept_code = JStr (toString (b ''dept_code'')),
      joining_date = JStr (toString (b ''joining_date'')),
      secrete_code = JStr (toString (b ''secrete_code''))\<rparr>"

text \<open>Every stored record holds a non-empty string in each of the seven fields.\<close>

definition schema_valid :: "store \<Rightarrow> bool" where
  "schema_valid s =
     list_all (\<lambda>d. list_all checkRequired
                 [emp_name d, emp_email d, emp_salary d, experience d,
                  dept_code d, joining_date d, secrete_code d]) (docs s)"

text \<open>Every one of the seven fields of the body is submitted as a string.\<close>

definition text_body :: "reqbody \<Rightarrow> bool" where
  "text_body b = list_all (\<lambda>f. case b f of JStr t \<Rightarrow> True | _ \<Rightarrow> False) (map fst post_rules)"

subsection \<open>Example data\<close>

text \<open>
  A library instance on which the handlers can be run: the two syntax checks and the
  identifier test are simple stand-ins that accept the example values of the
  specification, and the error texts are short.
\<close>

definition simple_email :: "string \<Rightarrow> bool" where
  "simple_email s =
     (let l = takeWhile (\<lambda>c. c \<noteq> CHR ''@'') s; d = dropWhile (\<lambda>c. c \<noteq> CHR ''@'') s
      in l \<noteq> [] \<and> (case d of [] \<Rightarrow> False | c # r \<Rightarrow> CHR ''.'' \<in> set r \<and> CHR ''@'' \<notin> set r))"

definition simple_date :: "string \<Rightarrow> bool" where
  "simple_date s = (map (\<lambda>c. if isDigit c then CHR ''d'' else c) s = ''dddd-dd-dd'')"

definition hex24 :: "string \<Rightarrow> bool" where
  "hex24 s = (length s = 24 \<and> list_all (\<lambda>c. c \<in> set ''0123456789abcdefABCDEF'') s)"

definition sample_lib :: lib where
  "sample_lib =
     \<lparr>isEmail = simple_email,
      isISO8601 = simple_date,
      isObjectId = hex24,
      castErrorMessage = (\<lambda>i. ''Cast to ObjectId failed for value '' @ i),
      validationErrorMessage = (\<lambda>ps. ''Employee validation failed: '' @ concat ps),
      duplicateKeyMessage = (\<lambda>i. ''E11000 duplicate key error: '' @ i),
      documentNotFoundMessage = (\<lambda>i. ''No document found for query '' @ i)\<rparr>"

definition sample_id :: string where
  "sample_id = ''65a1b2c3d4e5f60718293a4b''"

text \<open>The valid body of the specification's scenario; \<open>experience\<close> is the number 3.\<close>

definition sample_body :: reqbody where
  "sample_body f =
     (if f = ''emp_name'' then JStr ''Alice Smith''
      else if f = ''emp_email'' then JStr ''a@x.com''
      else if f = ''emp_salary'' then JStr ''50000''
      else if f = ''experience'' then JNum ''3''
      else if f = ''dept_code'' then JStr ''ENG''
      else if f = ''joining_date'' then JStr ''2024-01-15''
      else if f = ''secrete_code'' then JStr ''abc''
      else JUndefined)"

text \<open>The same body with every value a string, and a second body that differs in every field.\<close>

definition text_only_body :: reqbody where
  "text_only_body = sample_body(''experience'' := JStr ''3'')"

definition other_body :: reqbody where
  "other_body f =
     (if f = ''emp_name'' then JStr ''Bob Jones''
      else if f = ''emp_email'' then JStr ''b@y.org''
      else if f = ''emp_salary'' then JNum ''61000.5''
      else if f = ''experience'' then JNum ''7''
      else if f = ''dept_code'' then JStr ''OPS''
      else if f = ''joining_date'' then JStr ''2025-02-01''
      else if f = ''secrete_code'' then JStr ''xyz''
      else JUndefined)"

definition absent_id :: string where
  "absent_id = ''000000000000000000000000''"

definition empty_store :: store where
  "empty_store = \<lparr>docs = [], calls = []\<rparr>"

text \<open>A store holding the one record named Alice Smith.\<close>

definition alice :: employee where
  "alice = stored_form sample_id sample_body"

definition alice_store :: store where
  "alice_store = \<lparr>docs = [alice], calls = []\<rparr>"

section \<open>Validation\<close>

lemma run_chain_empty:
  "(run_chain L b (f, rs) = []) = (\<forall>(v, m)\<in>set rs. passes L v (b f))"
  by (auto simp: filter_empty_conv)


lemma validationResult_empty:
  "(validationResult L rules b = []) = (\<forall>(f, rs)\<in>set rules. \<forall>(v, m)\<in>set rs. passes L v (b f))"
proof -
  have "(validationResult L rules b = []) = (\<forall>c\<in>set rules. run_chain L b c = [])"
    by (simp add: validationResult_def)
  also have "\<dots> = (\<forall>(f, rs)\<in>set rules. run_chain L b (f, rs) = [])"
    by (auto simp del: run_chain.simps)
  finally show ?thesis
    by (simp only: run_chain_empty)
qed





lemma put_rules_eq: "put_rules = post_rules"
  by (simp add: put_rules_def post_rules_def)



lemma sample_body_valid: "validationResult sample_lib post_rules sample_body = []"
  by (simp add: validationResult_def post_rules_def sample_lib_def sample_body_def
      simple_email_def simple_date_def isNumeric_def isInt_def isDigit_def number_of_def
      digits_val_def)


text \<open>
  C8. The rules of the update endpoint are written out separately from those of the
  create endpoint, and the two report the same violations for every body.
\<close>

theorem create_update_same_validation:
  "validationResult L put_rules b = validationResult L post_rules b"
  by (simp add: put_rules_eq)

section \<open>Create, read, update, delete\<close>

lemma castString_text: "toString v \<noteq> [] \<Longrightarrow> castString v = JStr (toString v)"
  by (cases v) auto

lemma isInt_empty: "\<not> isInt lo []"
  by (simp add: isInt_def)

lemma valid_body_texts:
  assumes "validationResult L post_rules b = []" and "\<not> isISO8601 L []"
  shows "toString (b ''emp_name'') \<noteq> []" "toString (b ''emp_email'') \<noteq> []"
    "toString (b ''emp_salary'') \<noteq> []" "toString (b ''experience'') \<noteq> []"
    "toString (b ''dept_code'') \<noteq> []" "toString (b ''joining_date'') \<noteq> []"
    "toString (b ''secrete_code'') \<noteq> []"
  using assms isInt_empty [of "Some 0"]
  by (auto simp: validationResult_empty post_rules_def)

lemma Employee_valid:
  assumes "validationResult L post_rules b = []" and "\<not> isISO8601 L []"
  shows "Employee i b = stored_form i b"
  using valid_body_texts [OF assms]
  by (simp add: Employee_def stored_form_def castString_text)

lemma stored_form_required:
  assumes "validationResult L post_rules b = []" and "\<not> isISO8601 L []"
  shows "invalid_paths (stored_form i b) = []"
  using valid_body_texts [OF assms]
  by (simp add: invalid_paths_def stored_form_def)

lemma find_append_new:
  "\<forall>x\<in>set xs. \<not> P x \<Longrightarrow> P e \<Longrightarrow> find P (xs @ [e]) = Some e"
  by (induction xs) auto

lemma post_valid:
  assumes "validationResult L post_rules b = []" and "\<not> isISO8601 L []"
    and "i \<notin> set (map doc_id (docs s))"
  shows "post_employees L None i b s =
           (\<lparr>status = 201, body = JsonDoc (stored_form i b)\<rparr>,
            (called (Save i) s)\<lparr>docs := docs s @ [stored_form i b]\<rparr>)"
  using assms(3) stored_form_required [OF assms(1,2), of i]
  by (simp add: post_employees_def assms(1) Employee_valid [OF assms(1,2)] save_def
      stored_form_def)

lemma get_found:
  assumes "isObjectId L i" and "find (\<lambda>d. doc_id d = i) (docs s) = Some e"
  shows "get_employee L None i s = (\<lparr>status = 200, body = JsonDoc e\<rparr>, called (FindById i) s)"
  using assms by (simp add: get_employee_def findById_def)

lemma get_absent:
  assumes "isObjectId L i" and "find (\<lambda>d. doc_id d = i) (docs s) = None"
  shows "get_employee L None i s =
           (\<lparr>status = 404, body = JsonMessage ''Employee not found''\<rparr>, called (FindById i) s)"
  using assms by (simp add: get_employee_def findById_def)





lemma overwrite_all:
  "e\<lparr>emp_name := castString (b ''emp_name''),
     emp_email := castString (b ''emp_email''),
     emp_salary := castString (b ''emp_salary''),
     experience := castString (b ''experience''),
     dept_code := castString (b ''dept_code''),
     joining_date := castString (b ''joining_date''),
     secrete_code := castString (b ''secrete_code'')\<rparr> = Employee (doc_id e) b"
  by (cases e) (simp add: Employee_def)






section \<open>Round trip of create and read\<close>

lemma sample_lib_checks:
  "\<not> isISO8601 sample_lib []" "isObjectId sample_lib sample_id" "isObjectId sample_lib absent_id"
  "\<not> isObjectId sample_lib ''xyz''"
  by (simp_all add: sample_lib_def simple_date_def hex24_def sample_id_def absent_id_def)

lemma text_only_body_valid: "validationResult sample_lib post_rules text_only_body = []"
  by (simp add: validationResult_def post_rules_def sample_lib_def sample_body_def text_only_body_def
      simple_email_def simple_date_def isNumeric_def isInt_def isDigit_def number_of_def
      digits_val_def)

lemma other_body_valid: "validationResult sample_lib put_rules other_body = []"
  by (simp add: validationResult_def put_rules_def sample_lib_def other_body_def
      simple_email_def simple_date_def isNumeric_def isInt_def isDigit_def number_of_def
      digits_val_def)

lemma alice_unfold:
  "alice = \<lparr>doc_id = ''65a1b2c3d4e5f60718293a4b'', emp_name = JStr ''Alice Smith'',
            emp_email = JStr ''a@x.com'', emp_salary = JStr ''50000'', experience = JStr ''3'',
            dept_code = JStr ''ENG'', joining_date = JStr ''2024-01-15'',
            secrete_code = JStr ''abc''\<rparr>"
  by (simp add: alice_def stored_form_def sample_body_def sample_id_def)

text \<open>
  C2, as amended. For every body that passes validation, a fresh identifier the store
  accepts and a store that answers: \<open>POST /employees\<close> responds 201 with the persisted
  record, and \<open>GET /employees/:id\<close> with that identifier responds 200 with the same record.
  Each of its seven fields holds the text of the submitted value, so the record equals the
  submitted input whenever all seven values were submitted as strings.
\<close>
theorem create_then_read:
  assumes "validationResult L post_rules b = []" and "\<not> isISO8601 L []"
    and "isObjectId L i" and "i \<notin> set (map doc_id (docs s))"
  shows "fst (post_employees L None i b s) = \<lparr>status = 201, body = JsonDoc (stored_form i b)\<rparr>
    \<and> fst (get_employee L None i (snd (post_employees L None i b s)))
        = \<lparr>status = 200, body = JsonDoc (stored_form i b)\<rparr>
    \<and> (text_body b \<longrightarrow> same_fields (stored_form i b) b)"
proof -
  have "find (\<lambda>d. doc_id d = i) (docs s @ [stored_form i b]) = Some (stored_form i b)"
    using assms(4) by (intro find_append_new) (auto simp: stored_form_def)
  moreover have "text_body b \<longrightarrow> same_fields (stored_form i b) b"
    by (auto simp: text_body_def post_rules_def same_fields_def stored_form_def
        split: jsvalue.splits)
  ultimately show ?thesis
    using assms(3)
    by (simp add: post_valid [OF assms(1,2,4)] get_found called_def)
qed

theorem create_then_read_witness:
  "validationResult sample_lib post_rules text_only_body = []
   \<and> \<not> isISO8601 sample_lib []
   \<and> isObjectId sample_lib sample_id
   \<and> sample_id \<notin> set (map doc_id (docs empty_store))
   \<and> text_body text_only_body
   \<and> fst (post_employees sample_lib None sample_id text_only_body empty_store)
       = \<lparr>status = 201, body = JsonDoc alice\<rparr>
   \<and> fst (get_employee sample_lib None sample_id
            (snd (post_employees sample_lib None sample_id text_only_body empty_store)))
       = \<lparr>status = 200, body = JsonDoc alice\<rparr>
   \<and> same_fields alice text_only_body"
proof -
  have new: "sample_id \<notin> set (map doc_id (docs empty_store))"
    by (simp add: empty_store_def)
  have t: "text_body text_only_body"
    by (simp add: text_body_def post_rules_def text_only_body_def sample_body_def)
  have a: "stored_form sample_id text_only_body = alice"
    by (simp add: alice_def stored_form_def text_only_body_def sample_body_def)
  show ?thesis
    using create_then_read [OF text_only_body_valid sample_lib_checks(1,2) new] new t
      text_only_body_valid sample_lib_checks(1,2)
    by (simp add: a)
qed

text \<open>
  With equality to the submitted input the round trip fails on the example body of the
  specification: \<open>experience\<close> is submitted as the number 3 and is read back as the string.
\<close>
theorem create_then_read_counterexample:
  "validationResult sample_lib post_rules sample_body = []
   \<and> fst (post_employees sample_lib None sample_id sample_body empty_store)
       = \<lparr>status = 201, body = JsonDoc alice\<rparr>
   \<and> fst (get_employee sample_lib None sample_id
            (snd (post_employees sample_lib None sample_id sample_body empty_store)))
       = \<lparr>status = 200, body = JsonDoc alice\<rparr>
   \<and> experience alice = JStr ''3''
   \<and> sample_body ''experience'' = JNum ''3''
   \<and> \<not> same_fields alice sample_body"
proof -
  have new: "sample_id \<notin> set (map doc_id (docs empty_store))"
    by (simp add: empty_store_def)
  have p: "post_employees sample_lib None sample_id sample_body empty_store =
           (\<lparr>status = 201, body = JsonDoc alice\<rparr>,
            (called (Save sample_id) empty_store)\<lparr>docs := docs empty_store @ [alice]\<rparr>)"
    using post_valid [OF sample_body_valid sample_lib_checks(1) new] by (simp add: alice_def)
  have g: "fst (get_employee sample_lib None sample_id
            ((called (Save sample_id) empty_store)\<lparr>docs := docs empty_store @ [alice]\<rparr>))
       = \<lparr>status = 200, body = JsonDoc alice\<rparr>"
    by (simp add: get_employee_def findById_def sample_lib_checks empty_store_def called_def
        alice_def stored_form_def)
  have e: "experience alice = JStr ''3''" "sample_body ''experience'' = JNum ''3''"
    by (simp_all add: alice_unfold sample_body_def)
  then have "\<not> same_fields alice sample_body"
    by (simp add: same_fields_def)
  with p g e sample_body_valid show ?thesis
    by simp
qed

section \<open>Update, delete and read by identifier\<close>

lemma alice_store_find:
  "find (\<lambda>d. doc_id d = sample_id) (docs alice_store) = Some alice"
  "find (\<lambda>d. doc_id d = absent_id) (docs alice_store) = None"
  by (simp_all add: alice_store_def alice_unfold sample_id_def absent_id_def)



lemma negative_experience_violation:
  "validationResult sample_lib post_rules (sample_body(''experience'' := JNum ''-1''))
     = [\<lparr>field = ''experience'', message = ''Experience must be a non-negative integer''\<rparr>]"
  by (simp add: validationResult_def post_rules_def sample_lib_def sample_body_def
      simple_email_def simple_date_def isNumeric_def isInt_def isDigit_def number_of_def
      digits_val_def)

lemma alice_store_schema_valid: "schema_valid alice_store"
  by (simp add: schema_valid_def alice_store_def alice_unfold)





text \<open>
  C6. An \<open>:id\<close> that is not an identifier of the store makes \<open>GET /employees/:id\<close> respond
  500 with the text of the cast error; a 404 is given only for a well-formed identifier that
  no record has.
\<close>
theorem malformed_id_is_storage_error:
  "(\<not> isObjectId L i \<longrightarrow>
      get_employee L flt i s =
        (\<lparr>status = 500, body = JsonMessage (castErrorMessage L i)\<rparr>, called (FindById i) s))
   \<and> (status (fst (get_employee L flt i s)) = 404 \<longrightarrow>
        isObjectId L i \<and> find (\<lambda>d. doc_id d = i) (docs s) = None)"
proof (cases flt)
  case None
  then show ?thesis
    by (cases "find (\<lambda>d. doc_id d = i) (docs s)") (auto simp: get_employee_def findById_def)
next
  case (Some a)
  then show ?thesis
    by (cases a) (auto simp: get_employee_def findById_def)
qed

theorem malformed_id_is_storage_error_witness:
  "\<not> isObjectId sample_lib ''xyz''
   \<and> get_employee sample_lib None ''xyz'' alice_store
       = (\<lparr>status = 500, body = JsonMessage ''Cast to ObjectId failed for value xyz''\<rparr>,
          called (FindById ''xyz'') alice_store)
   \<and> status (fst (get_employee sample_lib None absent_id alice_store)) = 404
   \<and> isObjectId sample_lib absent_id
   \<and> find (\<lambda>d. doc_id d = absent_id) (docs alice_store) = None"
proof -
  have m: "castErrorMessage sample_lib ''xyz'' = ''Cast to ObjectId failed for value xyz''"
    by (simp add: sample_lib_def)
  have g: "status (fst (get_employee sample_lib None absent_id alice_store)) = 404"
    by (simp add: get_absent [OF sample_lib_checks(3) alice_store_find(2)])
  show ?thesis
    using malformed_id_is_storage_error [of sample_lib "''xyz''" None alice_store]
      malformed_id_is_storage_error [of sample_lib absent_id None alice_store]
      sample_lib_checks(4) g
    by (simp add: m)
qed

text \<open>
  C9. When validation reports a violation, \<open>POST /employees\<close> and \<open>PUT /employees/:id\<close>
  respond 400 with the list and return the store as it was, documents and calls alike;
  and whenever either of them responds with a list of violations, the store is unchanged.
\<close>
theorem validation_failure_leaves_store:
  "(validationResult L post_rules b \<noteq> [] \<longrightarrow>
      post_employees L flt n b s =
        (\<lparr>status = 400, body = JsonErrors (validationResult L post_rules b)\<rparr>, s))
   \<and> (validationResult L put_rules b \<noteq> [] \<longrightarrow>
      put_employee L flt flt' i b s =
        (\<lparr>status = 400, body = JsonErrors (validationResult L put_rules b)\<rparr>, s))
   \<and> (\<forall>vs. body (fst (post_employees L flt n b s)) = JsonErrors vs \<longrightarrow>
        snd (post_employees L flt n b s) = s)
   \<and> (\<forall>vs. body (fst (put_employee L flt flt' i b s)) = JsonErrors vs \<longrightarrow>
        snd (put_employee L flt flt' i b s) = s)"
  apply (intro conjI allI impI)
     apply (simp add: post_employees_def)
    apply (simp add: put_employee_def)
   apply (auto simp: post_employees_def Let_def split: if_splits prod.splits outcome.splits)[1]
  apply (auto simp: put_employee_def Let_def split: if_splits prod.splits outcome.splits option.splits)[1]
  done

theorem validation_failure_leaves_store_witness:
  "validationResult sample_lib post_rules (sample_body(''experience'' := JNum ''-1'')) \<noteq> []
   \<and> post_employees sample_lib None absent_id (sample_body(''experience'' := JNum ''-1'')) alice_store
       = (\<lparr>status = 400,
           body = JsonErrors [\<lparr>field = ''experience'',
                               message = ''Experience must be a non-negative integer''\<rparr>]\<rparr>,
          alice_store)
   \<and> put_employee sample_lib None None sample_id (sample_body(''experience'' := JNum ''-1'')) alice_store
       = (\<lparr>status = 400,
           body = JsonErrors [\<lparr>field = ''experience'',
                               message = ''Experience must be a non-negative integer''\<rparr>]\<rparr>,
          alice_store)"
  using validation_failure_leaves_store
    [of sample_lib "sample_body(''experience'' := JNum ''-1'')" None absent_id alice_store None sample_id]
  by (simp add: negative_experience_violation put_rules_eq)

section \<open>The stored representation\<close>

lemma invalid_paths_required:
  "(invalid_paths e = []) =
     list_all checkRequired [emp_name e, emp_email e, emp_salary e, experience e,
                             dept_code e, joining_date e, secrete_code e]"
  by (auto simp: invalid_paths_def)

lemma list_all_replace_doc: "list_all P ds \<Longrightarrow> P e \<Longrightarrow> list_all P (replace_doc e ds)"
  by (induction ds) auto

lemma list_all_remove_doc: "list_all P ds \<Longrightarrow> list_all P (remove_doc i ds)"
  by (induction ds) auto

lemma mem_replace_doc: "doc_id e \<in> doc_id ` set ds \<Longrightarrow> e \<in> set (replace_doc e ds)"
  by (induction ds) auto

lemma failed_not_resolved: "failed f \<noteq> Resolved x"
  by (cases f) simp_all

lemma findById_docs: "findById L flt i s = (r, s') \<Longrightarrow> docs s' = docs s"
  by (auto simp: findById_def called_def split: if_splits option.splits)

lemma save_schema_valid:
  assumes "save L flt isNew e s = (r, s')" and "schema_valid s"
  shows "schema_valid s'"
  using assms
  by (auto simp: save_def called_def Let_def schema_valid_def invalid_paths_required
      list_all_replace_doc split: if_splits option.splits)

lemma save_resolved:
  assumes "save L flt isNew e s = (Resolved d, s')"
  shows "d = e \<and> d \<in> set (docs s')"
  using assms
  by (auto simp: save_def called_def Let_def failed_not_resolved mem_replace_doc
      split: if_splits option.splits)

lemma deleteOne_schema_valid:
  assumes "deleteOne flt e s = (r, s')" and "schema_valid s"
  shows "schema_valid s'"
  using assms
  by (auto simp: deleteOne_def called_def Let_def schema_valid_def list_all_remove_doc
      split: option.splits)

lemma findById_schema_valid:
  "findById L flt i s = (r, s') \<Longrightarrow> schema_valid s \<Longrightarrow> schema_valid s'"
  using findById_docs [of L flt i s r s'] by (simp add: schema_valid_def)

lemma post_schema_valid:
  assumes "schema_valid s"
  shows "schema_valid (snd (post_employees L flt n b s))"
proof (cases "save L flt True (Employee n b) s")
  case (Pair r s')
  then have "schema_valid s'"
    using assms by (rule save_schema_valid)
  with Pair assms show ?thesis
    by (cases r) (simp_all add: post_employees_def Let_def)
qed

lemma put_schema_valid:
  assumes "schema_valid s"
  shows "schema_valid (snd (put_employee L flt flt' i b s))"
proof (cases "findById L flt i s")
  case (Pair r s')
  then have s': "schema_valid s'"
    using assms by (rule findById_schema_valid)
  show ?thesis
  proof (cases r)
    case (Resolved x)
    show ?thesis
    proof (cases x)
      case None
      with Pair Resolved s' assms show ?thesis
        by (simp add: put_employee_def Let_def)
    next
      case (Some e)
      obtain r' s'' where sv: "save L flt' False (Employee (doc_id e) b) s' = (r', s'')"
        by (cases "save L flt' False (Employee (doc_id e) b) s'")
      then have "schema_valid s''"
        using s' by (rule save_schema_valid)
      with Pair Resolved Some sv assms show ?thesis
        by (cases r') (simp_all add: put_employee_def Let_def overwrite_all)
    qed
  next
    case (Rejected err)
    with Pair s' assms show ?thesis
      by (simp add: put_employee_def Let_def)
  next
    case (Thrown err)
    with Pair s' assms show ?thesis
      by (simp add: put_employee_def Let_def)
  qed
qed

lemma delete_schema_valid:
  assumes "schema_valid s"
  shows "schema_valid (snd (delete_employee L flt flt' i s))"
proof (cases "findById L flt i s")
  case (Pair r s')
  then have s': "schema_valid s'"
    using assms by (rule findById_schema_valid)
  show ?thesis
  proof (cases r)
    case (Resolved x)
    show ?thesis
    proof (cases x)
      case None
      with Pair Resolved s' show ?thesis
        by (simp add: delete_employee_def)
    next
      case (Some e)
      obtain r' s'' where dl: "deleteOne flt' e s' = (r', s'')"
        by (cases "deleteOne flt' e s'")
      then have "schema_valid s''"
        using s' by (rule deleteOne_schema_valid)
      with Pair Resolved Some dl show ?thesis
        by (cases r') (simp_all add: delete_employee_def)
    qed
  next
    case (Rejected err)
    with Pair s' show ?thesis
      by (simp add: delete_employee_def)
  next
    case (Thrown err)
    with Pair s' show ?thesis
      by (simp add: delete_employee_def)
  qed
qed

lemma post_created_doc:
  assumes "fst (post_employees L flt n b s) = \<lparr>status = 201, body = JsonDoc e\<rparr>"
  shows "e = Employee n b" and "e \<in> set (docs (snd (post_employees L flt n b s)))"
proof -
  from assms have v: "validationResult L post_rules b = []"
    by (auto simp: post_employees_def Let_def split: if_splits)
  obtain r s' where sv: "save L flt True (Employee n b) s = (r, s')"
    by (cases "save L flt True (Employee n b) s")
  from assms v sv have r: "r = Resolved e"
    by (cases r) (auto simp: post_employees_def)
  have s': "snd (post_employees L flt n b s) = s'"
    using v sv r by (simp add: post_employees_def)
  from save_resolved [of L flt True "Employee n b" s e s'] sv r
  have "e = Employee n b \<and> e \<in> set (docs s')"
    by blast
  then show "e = Employee n b" and "e \<in> set (docs (snd (post_employees L flt n b s)))"
    unfolding s' by blast+
qed

lemma put_updated_doc:
  assumes "fst (put_employee L flt flt' i b s) = \<lparr>status = 200, body = JsonDoc e\<rparr>"
  shows "e = Employee (doc_id e) b" and "e \<in> set (docs (snd (put_employee L flt flt' i b s)))"
proof -
  from assms have v: "validationResult L put_rules b = []"
    by (auto simp: put_employee_def Let_def split: if_splits)
  obtain r s' where fb: "findById L flt i s = (r, s')"
    by (cases "findById L flt i s")
  from assms v fb obtain e0 where r: "r = Resolved (Some e0)"
    by (cases r) (auto simp: put_employee_def split: option.splits)
  obtain r' s'' where sv: "save L flt' False (Employee (doc_id e0) b) s' = (r', s'')"
    by (cases "save L flt' False (Employee (doc_id e0) b) s'")
  from assms v fb r sv have r': "r' = Resolved e"
    by (cases r') (auto simp: put_employee_def overwrite_all)
  have s'': "snd (put_employee L flt flt' i b s) = s''"
    using v fb r sv r' by (simp add: put_employee_def overwrite_all)
  from save_resolved [of L flt' False "Employee (doc_id e0) b" s' e s''] sv r'
  have e1: "e = Employee (doc_id e0) b" and e2: "e \<in> set (docs s'')"
    by blast+
  have "doc_id (Employee (doc_id e0) b) = doc_id e0"
    by (simp add: Employee_def)
  then have id: "doc_id e = doc_id e0"
    by (subst e1)
  show "e = Employee (doc_id e) b"
    unfolding id by (rule e1)
  show "e \<in> set (docs (snd (put_employee L flt flt' i b s)))"
    unfolding s'' by (rule e2)
qed

text \<open>
  C10. Every path of the schema is a required string: if every stored record holds a
  non-empty string in each of the seven fields, the same is true after any create, update
  or delete request, whatever its outcome; and a record written by a create or an update
  holds, for \<open>experience\<close> and \<open>emp_salary\<close> submitted as JSON numbers, the text of the
  number.
\<close>
theorem persisted_fields_are_strings:
  assumes "schema_valid s"
  shows "schema_valid (snd (post_employees L flt n b s))
    \<and> schema_valid (snd (put_employee L flt flt' i b s))
    \<and> schema_valid (snd (delete_employee L flt flt' i s))
    \<and> (\<forall>e. fst (post_employees L flt n b s) = \<lparr>status = 201, body = JsonDoc e\<rparr> \<longrightarrow>
          e \<in> set (docs (snd (post_employees L flt n b s)))
          \<and> (\<forall>t. b ''experience'' = JNum t \<longrightarrow> experience e = JStr t)
          \<and> (\<forall>t. b ''emp_salary'' = JNum t \<longrightarrow> emp_salary e = JStr t))
    \<and> (\<forall>e. fst (put_employee L flt flt' i b s) = \<lparr>status = 200, body = JsonDoc e\<rparr> \<longrightarrow>
          e \<in> set (docs (snd (put_employee L flt flt' i b s)))
          \<and> (\<forall>t. b ''experience'' = JNum t \<longrightarrow> experience e = JStr t)
          \<and> (\<forall>t. b ''emp_salary'' = JNum t \<longrightarrow> emp_salary e = JStr t))"
proof (intro conjI allI impI)
  show "schema_valid (snd (post_employees L flt n b s))"
    using assms by (rule post_schema_valid)
  show "schema_valid (snd (put_employee L flt flt' i b s))"
    using assms by (rule put_schema_valid)
  show "schema_valid (snd (delete_employee L flt flt' i s))"
    using assms by (rule delete_schema_valid)
next
  fix e t
  assume r: "fst (post_employees L flt n b s) = \<lparr>status = 201, body = JsonDoc e\<rparr>"
  note d = post_created_doc [OF r]
  show "e \<in> set (docs (snd (post_employees L flt n b s)))"
    by (rule d(2))
  { assume "b ''experience'' = JNum t"
    then have "experience (Employee n b) = JStr t"
      by (simp add: Employee_def)
    then show "experience e = JStr t"
      by (subst d(1)) }
  { assume "b ''emp_salary'' = JNum t"
    then have "emp_salary (Employee n b) = JStr t"
      by (simp add: Employee_def)
    then show "emp_salary e = JStr t"
      by (subst d(1)) }
next
  fix e t
  assume r: "fst (put_employee L flt flt' i b s) = \<lparr>status = 200, body = JsonDoc e\<rparr>"
  note d = put_updated_doc [OF r]
  show "e \<in> set (docs (snd (put_employee L flt flt' i b s)))"
    by (rule d(2))
  { assume "b ''experience'' = JNum t"
    then have "experience (Employee (doc_id e) b) = JStr t"
      by (simp add: Employee_def)
    then show "experience e = JStr t"
      by (subst d(1)) }
  { assume "b ''emp_salary'' = JNum t"
    then have "emp_salary (Employee (doc_id e) b) = JStr t"
      by (simp add: Employee_def)
    then show "emp_salary e = JStr t"
      by (subst d(1)) }
qed

theorem persisted_fields_are_strings_witness:
  "schema_valid alice_store
   \<and> fst (post_employees sample_lib None absent_id other_body alice_store)
       = \<lparr>status = 201, body = JsonDoc (stored_form absent_id other_body)\<rparr>
   \<and> other_body ''experience'' = JNum ''7''
   \<and> other_body ''emp_salary'' = JNum ''61000.5''
   \<and> experience (stored_form absent_id other_body) = JStr ''7''
   \<and> emp_salary (stored_form absent_id other_body) = JStr ''61000.5''
   \<and> schema_valid (snd (post_employees sample_lib None absent_id other_body alice_store))"
proof -
  have v: "validationResult sample_lib post_rules other_body = []"
    using other_body_valid by (simp add: put_rules_eq)
  have new: "absent_id \<notin> set (map doc_id (docs alice_store))"
    by (simp add: alice_store_def alice_unfold absent_id_def)
  have p: "fst (post_employees sample_lib None absent_id other_body alice_store)
       = \<lparr>status = 201, body = JsonDoc (stored_form absent_id other_body)\<rparr>"
    by (simp add: post_valid [OF v sample_lib_checks(1) new])
  have b: "other_body ''experience'' = JNum ''7''" "other_body ''emp_salary'' = JNum ''61000.5''"
    by (simp_all add: other_body_def)
  show ?thesis
    using persisted_fields_are_strings [OF alice_store_schema_valid,
        of sample_lib None absent_id other_body None sample_id]
      alice_store_schema_valid p b
    by simp
qed

section \<open>Search by name\<close>









text \<open>
  C7. When the store rejects the query of \<open>GET /employees/search/:name\<close>, the response is
  500 with the error text under the key \<open>error\<close>, where \<open>GET /employees\<close> puts the same
  text under the key \<open>message\<close>.
\<close>
theorem search_rejection_body:
  "search_employees (Some (Rejects ''connection refused'')) ''alice'' alice_store
     = Some (\<lparr>status = 500, body = JsonError ''connection refused''\<rparr>,
             called (FindRegex ''alice'') alice_store)
   \<and> fst (get_employees (Some (Rejects ''connection refused'')) alice_store)
       = \<lparr>status = 500, body = JsonMessage ''connection refused''\<rparr>"
  by (simp add: search_employees_def metachars_def find_regex_def get_employees_def find_all_def)

end
